theory Spec2Isabelle
  imports Complex_Main
begin

section \<open>YouTube channel analytics: feature derivation and hypothesis tests\<close>

text \<open>
  A shallow embedding of \<^verbatim>\<open>youtube_channel_analytics.py\<close>: the duration parser and the
  title classifier of \<^verbatim>\<open>YouTubeDataProcessor\<close>, its \<^verbatim>\<open>process_dataframe\<close>, and the
  keyword analysis and hypothesis tests of \<^verbatim>\<open>YouTubeAnalytics\<close>.

  Conventions. Python's \<^verbatim>\<open>str\<close> is modelled as \<open>string\<close> restricted to ASCII: the digit,
  word-character and lower-casing predicates below are the ASCII ones (Python's also accept
  the other Unicode decimal digits and letters). Python's \<^verbatim>\<open>int\<close> is \<open>int\<close>. A float64 is
  modelled by the real number it stands for, so rounding is left out; where a float can be
  NaN or infinite the type \<open>pyfloat\<close> says so.
\<close>

subsection \<open>Strings and the regular expressions of the source\<close>

definition is_digit :: "char \<Rightarrow> bool" where
  "is_digit c = (c \<in> set ''0123456789'')"

definition digit_val :: "char \<Rightarrow> int" where
  "digit_val c = int (of_char c) - 48"

text \<open>
  \<^verbatim>\<open>int(s)\<close> on a string of decimal digits (leading zeros allowed). The result is an
  unbounded integer; the interpreter's limit on the length of the string it converts
  (4300 digits by default from Python 3.11 on) is left out.
\<close>

definition py_int :: "string \<Rightarrow> int" where
  "py_int ds = foldl (\<lambda>acc c. acc * 10 + digit_val c) 0 ds"

text \<open>
  The pattern \<^verbatim>\<open>(\d+)U\<close> for a unit letter \<open>U\<close>, matched at the start of a string, with
  the result of \<^verbatim>\<open>group(1)\<close>. \<^verbatim>\<open>\d+\<close> is greedy: after one digit the matcher first tries
  to go on with more digits, and only when that fails does it backtrack and ask for the
  unit letter right after the digits read so far.
\<close>

fun match_digits_unit :: "char \<Rightarrow> string \<Rightarrow> string option" where
  "match_digits_unit u [] = None"
| "match_digits_unit u (c # cs) =
     (if is_digit c then
        (case match_digits_unit u cs of
           Some ds \<Rightarrow> Some (c # ds)
         | None \<Rightarrow> (case cs of [] \<Rightarrow> None | d # _ \<Rightarrow> if d = u then Some [c] else None))
      else None)"

text \<open>\<^verbatim>\<open>re.search(r'(\d+)U', s)\<close>: the match at the leftmost position that has one.\<close>

fun re_search :: "char \<Rightarrow> string \<Rightarrow> string option" where
  "re_search u [] = None"
| "re_search u (c # cs) =
     (case match_digits_unit u (c # cs) of
        Some ds \<Rightarrow> Some ds
      | None \<Rightarrow> re_search u cs)"

text \<open>\<^verbatim>\<open>YouTubeDataProcessor.duration_to_seconds\<close> (lines 186-209).\<close>

definition duration_to_seconds :: "string \<Rightarrow> int" where
  "duration_to_seconds duration =
     (let hours = re_search CHR ''H'' duration;
          minutes = re_search CHR ''M'' duration;
          seconds = re_search CHR ''S'' duration;
          total0 = 0;
          total1 = (case hours of Some g \<Rightarrow> total0 + py_int g * 3600 | None \<Rightarrow> total0);
          total2 = (case minutes of Some g \<Rightarrow> total1 + py_int g * 60 | None \<Rightarrow> total1);
          total3 = (case seconds of Some g \<Rightarrow> total2 + py_int g | None \<Rightarrow> total2)
      in total3)"







subsection \<open>The title classifier\<close>

text \<open>\<^verbatim>\<open>str.lower()\<close> on ASCII: the 26 capital letters change, every other character stays.\<close>

definition lower_char :: "char \<Rightarrow> char" where
  "lower_char c =
     (case map_of (zip ''ABCDEFGHIJKLMNOPQRSTUVWXYZ'' ''abcdefghijklmnopqrstuvwxyz'') c of
        Some l \<Rightarrow> l
      | None \<Rightarrow> c)"

definition lower :: "string \<Rightarrow> string" where
  "lower s = map lower_char s"

text \<open>\<^verbatim>\<open>s.startswith(k)\<close> and the substring test \<^verbatim>\<open>k in s\<close>.\<close>

fun startswith :: "string \<Rightarrow> string \<Rightarrow> bool" where
  "startswith s [] = True"
| "startswith [] (k # ks) = False"
| "startswith (c # cs) (k # ks) = (c = k \<and> startswith cs ks)"

fun str_in :: "string \<Rightarrow> string \<Rightarrow> bool" where
  "str_in k [] = (k = [])"
| "str_in k (c # cs) = (startswith (c # cs) k \<or> str_in k cs)"

text \<open>
  The dictionary \<^verbatim>\<open>categories\<close> of \<^verbatim>\<open>categorize_video_type\<close> (lines 225-239). A Python
  dictionary is iterated in insertion order, so it is an association list here.
\<close>

definition categories :: "(string \<times> string list) list" where
  "categories =
     [(''Tutorial'', [''tutorial'', ''how to'', ''guide'', ''learn'', ''beginner'',
                      ''advanced'', ''intermediate'', ''basics'', ''step by step'',
                      ''complete'', ''full course'', ''training'']),
      (''Career'', [''career'', ''job'', ''salary'', ''interview'', ''resume'', ''hiring'',
                    ''work'', ''employment'', ''promotion'', ''cv'', ''recruiter'']),
      (''Project'', [''project'', ''portfolio'', ''bootcamp'', ''full project'',
                     ''hands-on'', ''practical'', ''real world'']),
      (''Tools'', [''excel'', ''sql'', ''python'', ''tableau'', ''power bi'', ''pandas'',
                   ''mysql'', ''jupyter'', ''anaconda'', ''azure'', ''aws'']),
      (''Q&A/Livestream'', [''q&a'', ''qa'', ''livestream'', ''ask me anything'', ''ama'',
                            ''live'', ''questions'', ''answers'']),
      (''Advice'', [''tips'', ''mistakes'', ''reasons'', ''best'', ''top'', ''avoid'',
                    ''should'', ''shouldn'' @ [CHR 0x27] @ ''t'', ''advice'',
                    ''recommendation''])]"

text \<open>\<^verbatim>\<open>YouTubeDataProcessor.categorize_video_type\<close> (lines 211-246).\<close>

definition categorize_video_type :: "string \<Rightarrow> string" where
  "categorize_video_type title =
     (let title_lower = lower title in
      case find (\<lambda>(category, keywords). list_ex (\<lambda>keyword. str_in keyword title_lower) keywords)
             categories of
        Some (category, keywords) \<Rightarrow> category
      | None \<Rightarrow> ''Other'')"

text \<open>
  For stating what the classifier computes: \<open>k\<close> is a case-insensitive substring of \<open>t\<close>,
  and a title matches a category when one of the category's keywords is one.
\<close>

definition ci_substring :: "string \<Rightarrow> string \<Rightarrow> bool" where
  "ci_substring k t = (\<exists>ps ss. lower t = ps @ lower k @ ss)"

definition matches :: "string \<Rightarrow> string \<times> string list \<Rightarrow> bool" where
  "matches t c = list_ex (\<lambda>k. ci_substring k t) (snd c)"

definition keywords_of :: "string \<Rightarrow> string list" where
  "keywords_of category = (case map_of categories category of Some ks \<Rightarrow> ks | None \<Rightarrow> [])"

subsection \<open>The table and \<^verbatim>\<open>process_dataframe\<close>\<close>

text \<open>
  A row of the DataFrame that \<^verbatim>\<open>main\<close> builds from \<^verbatim>\<open>get_video_details\<close> (lines 158-168).
  The column \<^verbatim>\<open>published\<close> holds text before \<^verbatim>\<open>process_dataframe\<close> and parsed timestamps
  after it, so its type is a parameter. A DataFrame is the list of its rows, in index order.
\<close>

record 'p video =
  video_id :: string
  title :: string
  views :: int
  likes :: int
  comments :: int
  duration :: string
  published :: 'p
  description :: string
  tags :: "string list"

text \<open>
  A parsed timestamp, given by what the \<^verbatim>\<open>.dt\<close> accessors of lines 274-278 return for it.
  \<^verbatim>\<open>pd.to_datetime\<close> is a parameter \<open>to_datetime\<close> of the model: it gives \<open>None\<close> where
  pandas raises.
\<close>

record timestamp =
  dt_quarter :: string
  dt_dayofweek :: nat
  dt_day_name :: string
  dt_month :: nat
  dt_year :: int

record analysis = "timestamp video" +
  duration_sec :: int
  duration_min :: real
  likes_per_view :: real
  comments_per_view :: real
  engagement_rate :: real
  upload_quarter :: string
  day_of_week :: nat
  day_name :: string
  month :: nat
  year :: int
  category :: string
  duration_category :: "string option"

text \<open>\<^verbatim>\<open>Series.replace(0, 1)\<close> on one value.\<close>

definition replace_zero :: "int \<Rightarrow> int" where
  "replace_zero v = (if v = 0 then 1 else v)"

text \<open>
  \<^verbatim>\<open>pd.cut(x, bins, labels)\<close> with the defaults \<^verbatim>\<open>right=True\<close> and \<^verbatim>\<open>include_lowest=False\<close>,
  as pandas computes it: the index of \<open>x\<close> among the bin edges is
  \<^verbatim>\<open>bins.searchsorted(x, side='left')\<close>, the number of edges below \<open>x\<close>; index 0 and index
  \<^verbatim>\<open>len(bins)\<close> give a missing value (\<open>None\<close>), index \<open>i\<close> gives \<^verbatim>\<open>labels[i - 1]\<close>.
\<close>

datatype edge = Edge real | Infinity

fun below :: "edge \<Rightarrow> real \<Rightarrow> bool" where
  "below (Edge b) x = (b < x)"
| "below Infinity x = False"

definition searchsorted_left :: "edge list \<Rightarrow> real \<Rightarrow> nat" where
  "searchsorted_left bins x = length (filter (\<lambda>b. below b x) bins)"

definition pd_cut :: "edge list \<Rightarrow> string list \<Rightarrow> real \<Rightarrow> string option" where
  "pd_cut bins labels x =
     (let ids = searchsorted_left bins x in
      if ids = 0 \<or> ids = length bins then None else Some (labels ! (ids - 1)))"

definition duration_bins :: "edge list" where
  "duration_bins = [Edge 0, Edge 5, Edge 15, Edge 30, Edge 60, Infinity]"

definition duration_labels :: "string list" where
  "duration_labels =
     [''Very Short (<5min)'', ''Short (5-15min)'', ''Medium (15-30min)'',
      ''Long (30-60min)'', ''Very Long (>60min)'']"

text \<open>
  The body of \<^verbatim>\<open>process_dataframe\<close> (lines 259-289) on one row. Every statement of the
  body works element by element, so the new columns of a row depend on that row only.
  \<open>ts\<close> is the parsed \<^verbatim>\<open>published\<close> of the row.
\<close>

definition derive :: "timestamp \<Rightarrow> string video \<Rightarrow> analysis" where
  "derive ts r =
     (let sec = duration_to_seconds (duration r);
          mins = real_of_int sec / 60
      in \<lparr> video_id = video_id r, title = title r, views = views r, likes = likes r,
           comments = comments r, duration = duration r, published = ts,
           description = description r, tags = tags r,
           duration_sec = sec,
           duration_min = mins,
           likes_per_view = real_of_int (likes r) / real_of_int (replace_zero (views r)),
           comments_per_view = real_of_int (comments r) / real_of_int (replace_zero (views r)),
           engagement_rate =
             real_of_int (likes r + comments r) / real_of_int (replace_zero (views r)),
           upload_quarter = dt_quarter ts,
           day_of_week = dt_dayofweek ts,
           day_name = dt_day_name ts,
           month = dt_month ts,
           year = dt_year ts,
           category = categorize_video_type (title r),
           duration_category = pd_cut duration_bins duration_labels mins \<rparr>)"

datatype py_error = ValueError

text \<open>\<^verbatim>\<open>pd.to_datetime\<close> on a column: it raises when one entry does not parse.\<close>

fun to_datetime_column ::
  "(string \<Rightarrow> timestamp option) \<Rightarrow> string list \<Rightarrow> py_error + timestamp list" where
  "to_datetime_column to_datetime [] = Inr []"
| "to_datetime_column to_datetime (s # ss) =
     (case to_datetime s of
        None \<Rightarrow> Inl ValueError
      | Some t \<Rightarrow>
          (case to_datetime_column to_datetime ss of
             Inl e \<Rightarrow> Inl e
           | Inr ts \<Rightarrow> Inr (t # ts)))"

definition process_rows ::
  "(string \<Rightarrow> timestamp option) \<Rightarrow> string video list \<Rightarrow> py_error + analysis list" where
  "process_rows to_datetime rows =
     (case to_datetime_column to_datetime (map published rows) of
        Inl e \<Rightarrow> Inl e
      | Inr ts \<Rightarrow> Inr (map2 derive ts rows))"

text \<open>
  \<^verbatim>\<open>process_dataframe(df)\<close> assigns the new columns to the DataFrame it is given and
  returns that object. DataFrames are objects in a store, named by references; the
  function takes the store and the reference \<open>df\<close> and gives the new store and the
  reference it returns. Processing a table that has the columns already computes the same
  columns again. When \<^verbatim>\<open>pd.to_datetime\<close> raises, the result is the error, and the table as
  the exception leaves it is not described.
\<close>

datatype frame = Raw "string video list" | Processed "analysis list"

type_synonym store = "nat \<Rightarrow> frame"

definition process_dataframe ::
  "(string \<Rightarrow> timestamp option) \<Rightarrow> store \<Rightarrow> nat \<Rightarrow> py_error + store \<times> nat" where
  "process_dataframe to_datetime \<sigma> df =
     (case \<sigma> df of
        Raw rows \<Rightarrow>
          (case process_rows to_datetime rows of
             Inl e \<Rightarrow> Inl e
           | Inr out \<Rightarrow> Inr (\<sigma>(df := Processed out), df))
      | Processed rows \<Rightarrow> Inr (\<sigma>, df))"

text \<open>The columns of a row that come from the raw record, \<^verbatim>\<open>published\<close> apart.\<close>

definition raw_columns ::
  "('p, 'm) video_scheme \<Rightarrow>
     string \<times> string \<times> int \<times> int \<times> int \<times> string \<times> string \<times> string list"
  where
  "raw_columns r =
     (video_id r, title r, views r, likes r, comments r, duration r, description r, tags r)"


text \<open>What a call of \<^verbatim>\<open>process_dataframe\<close> returns, and the table it leaves at a reference.\<close>

fun returned :: "py_error + store \<times> nat \<Rightarrow> nat option" where
  "returned (Inl e) = None"
| "returned (Inr (\<sigma>, df)) = Some df"

fun frame_after :: "py_error + store \<times> nat \<Rightarrow> nat \<Rightarrow> frame option" where
  "frame_after (Inl e) ref = None"
| "frame_after (Inr (\<sigma>, df)) ref = Some (\<sigma> ref)"

subsection \<open>Example data\<close>

text \<open>
  A timestamp for Monday 15 May 2023, a \<open>to_datetime\<close> that parses that one text, and raw
  rows published then.
\<close>

definition example_ts :: timestamp where
  "example_ts =
     \<lparr> dt_quarter = ''2023Q2'', dt_dayofweek = 0, dt_day_name = ''Monday'', dt_month = 5,
       dt_year = 2023 \<rparr>"

definition example_to_datetime :: "string \<Rightarrow> timestamp option" where
  "example_to_datetime s = (if s = ''2023-05-15T14:00:00Z'' then Some example_ts else None)"

definition raw_row :: "string \<Rightarrow> string \<Rightarrow> int \<Rightarrow> int \<Rightarrow> int \<Rightarrow> string \<Rightarrow> string video" where
  "raw_row vid t v l c d =
     \<lparr> video_id = vid, title = t, views = v, likes = l, comments = c, duration = d,
       published = ''2023-05-15T14:00:00Z'', description = [], tags = [] \<rparr>"

definition example_store :: store where
  "example_store = (\<lambda>ref. Raw [raw_row ''v1'' ''SQL Tutorial for Beginners'' 100 10 1 ''PT5M''])"

subsection \<open>Floats, and the statistics of numpy and scipy\<close>

text \<open>
  A float64 that may be infinite or NaN. A comparison with NaN is false, and numpy's
  division by zero gives an infinity or NaN and raises nothing.
\<close>

datatype pyfloat = Fin real | PosInf | NegInf | NaN

fun lt :: "pyfloat \<Rightarrow> real \<Rightarrow> bool" where
  "lt (Fin x) c = (x < c)"
| "lt NegInf c = True"
| "lt PosInf c = False"
| "lt NaN c = False"

fun py_abs :: "pyfloat \<Rightarrow> pyfloat" where
  "py_abs (Fin x) = Fin \<bar>x\<bar>"
| "py_abs PosInf = PosInf"
| "py_abs NegInf = PosInf"
| "py_abs NaN = NaN"

definition fdiv :: "real \<Rightarrow> real \<Rightarrow> pyfloat" where
  "fdiv a b =
     (if b \<noteq> 0 then Fin (a / b) else if 0 < a then PosInf else if a < 0 then NegInf else NaN)"

text \<open>\<^verbatim>\<open>ndarray.mean()\<close>, \<^verbatim>\<open>np.median\<close>, \<^verbatim>\<open>ndarray.std()\<close> (population) and the sample variance.\<close>

definition mean :: "real list \<Rightarrow> real" where
  "mean xs = sum_list xs / real (length xs)"

definition median :: "real list \<Rightarrow> real" where
  "median xs =
     (let s = sort xs; n = length s in
      if even n then (s ! (n div 2 - 1) + s ! (n div 2)) / 2 else s ! (n div 2))"

definition variance :: "nat \<Rightarrow> real list \<Rightarrow> real" where
  "variance ddof xs = (\<Sum>x\<leftarrow>xs. (x - mean xs)\<^sup>2) / (real (length xs) - real ddof)"

definition std :: "real list \<Rightarrow> real" where
  "std xs = sqrt (variance 0 xs)"

text \<open>
  The distribution functions of scipy are parameters of the model: the survival function
  of Student's t distribution, \<^verbatim>\<open>mannwhitneyu(x, y, alternative='two-sided')\<close> as a whole,
  and \<^verbatim>\<open>f_oneway\<close> on groups that are all non-empty.
\<close>

record scipy =
  t_sf :: "real \<Rightarrow> real \<Rightarrow> real"
  mannwhitneyu :: "real list \<Rightarrow> real list \<Rightarrow> pyfloat \<times> pyfloat"
  f_oneway_nonempty :: "real list list \<Rightarrow> pyfloat \<times> pyfloat"

text \<open>
  \<^verbatim>\<open>scipy.stats.ttest_ind(a, b, equal_var)\<close> for samples of at least two values. With
  \<^verbatim>\<open>equal_var=True\<close>, the default, it is Student's test with the pooled variance and
  \<open>n1 + n2 - 2\<close> degrees of freedom; with \<^verbatim>\<open>equal_var=False\<close> it is Welch's test.
\<close>

definition equal_var_ttest_denom :: "real \<Rightarrow> real \<Rightarrow> real \<Rightarrow> real \<Rightarrow> real \<times> real" where
  "equal_var_ttest_denom v1 n1 v2 n2 =
     (let df = n1 + n2 - 2;
          svar = ((n1 - 1) * v1 + (n2 - 1) * v2) / df
      in (df, sqrt (svar * (1 / n1 + 1 / n2))))"

definition unequal_var_ttest_denom :: "real \<Rightarrow> real \<Rightarrow> real \<Rightarrow> real \<Rightarrow> real \<times> real" where
  "unequal_var_ttest_denom v1 n1 v2 n2 =
     (let vn1 = v1 / n1;
          vn2 = v2 / n2;
          d = vn1\<^sup>2 / (n1 - 1) + vn2\<^sup>2 / (n2 - 1);
          df = (if d = 0 then 1 else (vn1 + vn2)\<^sup>2 / d)
      in (df, sqrt (vn1 + vn2)))"

definition ttest_ind_statistic :: "real list \<Rightarrow> real list \<Rightarrow> bool \<Rightarrow> pyfloat \<times> real" where
  "ttest_ind_statistic a b equal_var =
     (let n1 = real (length a);
          n2 = real (length b);
          v1 = variance 1 a;
          v2 = variance 1 b;
          (df, denom) =
            (if equal_var then equal_var_ttest_denom v1 n1 v2 n2
             else unequal_var_ttest_denom v1 n1 v2 n2)
      in (fdiv (mean a - mean b) denom, df))"

fun two_sided_p :: "scipy \<Rightarrow> pyfloat \<Rightarrow> real \<Rightarrow> pyfloat" where
  "two_sided_p lib (Fin t) df = Fin (2 * t_sf lib \<bar>t\<bar> df)"
| "two_sided_p lib PosInf df = Fin 0"
| "two_sided_p lib NegInf df = Fin 0"
| "two_sided_p lib NaN df = NaN"

definition ttest_ind :: "scipy \<Rightarrow> real list \<Rightarrow> real list \<Rightarrow> bool \<Rightarrow> pyfloat \<times> pyfloat" where
  "ttest_ind lib a b equal_var =
     (let (t, df) = ttest_ind_statistic a b equal_var in (t, two_sided_p lib t df))"

text \<open>
  \<^verbatim>\<open>scipy.stats.f_oneway\<close>: when a group is empty it gives NaN for the statistic and for
  the p-value, with a warning, which line 25 of the source turns off.
\<close>

definition f_oneway :: "scipy \<Rightarrow> real list list \<Rightarrow> pyfloat \<times> pyfloat" where
  "f_oneway lib groups =
     (if list_ex (\<lambda>g. g = []) groups then (NaN, NaN) else f_oneway_nonempty lib groups)"

subsection \<open>\<^verbatim>\<open>YouTubeAnalytics\<close>: keyword frequency\<close>

text \<open>
  \<^verbatim>\<open>re.findall(r'\b\w+\b', s)\<close>: the maximal runs of word characters of \<open>s\<close>, from left
  to right. \<open>cur\<close> is the run being read.
\<close>

definition is_word_char :: "char \<Rightarrow> bool" where
  "is_word_char c =
     (c \<in> set ''abcdefghijklmnopqrstuvwxyzABCDEFGHIJKLMNOPQRSTUVWXYZ0123456789_'')"

fun findall_words :: "string \<Rightarrow> string \<Rightarrow> string list" where
  "findall_words cur [] = (if cur = [] then [] else [cur])"
| "findall_words cur (c # cs) =
     (if is_word_char c then findall_words (cur @ [c]) cs
      else (if cur = [] then [] else [cur]) @ findall_words [] cs)"

definition stop_words :: "string list" where
  "stop_words =
     [''a'', ''an'', ''the'', ''in'', ''on'', ''at'', ''to'', ''for'', ''of'',
      ''and'', ''or'', ''is'', ''with'', ''from'', ''|'', ''vs'', ''by'', ''are'',
      ''be'', ''as'', ''it'', ''this'', ''that'', ''my'', ''your'', ''i'', ''you'']"

text \<open>
  \<^verbatim>\<open>Counter(keywords)\<close> keeps its keys in the order of their first occurrence, and
  \<^verbatim>\<open>most_common(n)\<close> is the first \<open>n\<close> entries of a stable sort by falling count.
\<close>

fun counter_add :: "(string \<times> nat) list \<Rightarrow> string \<Rightarrow> (string \<times> nat) list" where
  "counter_add [] w = [(w, 1)]"
| "counter_add ((k, n) # kvs) w =
     (if k = w then (k, Suc n) # kvs else (k, n) # counter_add kvs w)"

definition counter :: "string list \<Rightarrow> (string \<times> nat) list" where
  "counter ws = foldl counter_add [] ws"

definition most_common :: "nat \<Rightarrow> (string \<times> nat) list \<Rightarrow> (string \<times> nat) list" where
  "most_common n c = take n (sort_key (\<lambda>kv. - int (snd kv)) c)"

text \<open>\<^verbatim>\<open>int(x)\<close> on a float, and \<^verbatim>\<open>df.nlargest(n, 'views')\<close> (ties in the order of the table).\<close>

definition py_trunc :: "real \<Rightarrow> int" where
  "py_trunc x = (if 0 \<le> x then \<lfloor>x\<rfloor> else \<lceil>x\<rceil>)"

definition nlargest :: "int \<Rightarrow> analysis list \<Rightarrow> analysis list" where
  "nlargest n df = (if n \<le> 0 then [] else take (nat n) (sort_key (\<lambda>r. - views r) df))"

text \<open>Lines 363-374: the keywords of a list of titles, counted.\<close>

definition count_keywords :: "string list \<Rightarrow> (string \<times> nat) list" where
  "count_keywords titles =
     (let keywords = concat (map (\<lambda>t. findall_words [] (lower t)) titles);
          keywords' = filter (\<lambda>w. w \<notin> set stop_words \<and> length w > 2) keywords
      in most_common 15 (counter keywords'))"

text \<open>\<^verbatim>\<open>YouTubeAnalytics.analyze_keyword_frequency\<close> (lines 349-383).\<close>

definition analyze_keyword_frequency :: "analysis list \<Rightarrow> real \<Rightarrow> (string \<times> nat) list" where
  "analyze_keyword_frequency df top_percentile =
     (let threshold = py_trunc (real (length df) * top_percentile);
          top_videos = nlargest threshold df
      in count_keywords (map title top_videos))"

definition default_top_percentile :: real where
  "default_top_percentile = 1 / 10"

subsection \<open>\<^verbatim>\<open>YouTubeAnalytics\<close>: the hypothesis tests\<close>

text \<open>
  \<^verbatim>\<open>test_day_of_week_hypothesis\<close> (lines 439-492). The verdict is the headline it prints:
  HYPOTHESIS SUPPORTED or HYPOTHESIS REJECTED. The function has no other outcome. The
  Tukey table and the recommendation that the supported branch prints are left out.
\<close>

datatype verdict = HypothesisSupported | HypothesisRejected

record day_results =
  f_statistic :: pyfloat
  p_value :: pyfloat

definition test_day_of_week_hypothesis :: "scipy \<Rightarrow> analysis list \<Rightarrow> verdict \<times> day_results" where
  "test_day_of_week_hypothesis lib df =
     (let day_groups =
            map (\<lambda>i. map (\<lambda>r. real_of_int (views r)) (filter (\<lambda>r. day_of_week r = i) df)) [0..<7];
          (f_stat, p) = f_oneway lib day_groups
      in (if lt p (5 / 100) then HypothesisSupported else HypothesisRejected,
          \<lparr> f_statistic = f_stat, p_value = p \<rparr>))"

text \<open>
  \<^verbatim>\<open>test_tutorial_vs_career_hypothesis\<close> (lines 494-630). It returns \<^verbatim>\<open>None\<close> on
  insufficient data and the dictionary \<^verbatim>\<open>results\<close> otherwise; the conclusion is the one of
  the three texts that lines 572-589 print. The additional insights of lines 591-610 are
  printed only and left out.
\<close>

datatype conclusion = TutorialMore | CareerMore | NoSignificantDifference

record comparison_results =
  tutorial_count :: nat
  career_count :: nat
  tutorial_mean_views :: real
  career_mean_views :: real
  tutorial_median_views :: real
  career_median_views :: real
  t_statistic :: pyfloat
  t_pvalue :: pyfloat
  u_statistic :: pyfloat
  u_pvalue :: pyfloat
  cohens_d :: pyfloat
  effect_size :: string
  hypothesis_supported :: bool

definition effect_interpretation :: "pyfloat \<Rightarrow> string" where
  "effect_interpretation d =
     (if lt (py_abs d) (2 / 10) then ''negligible''
      else if lt (py_abs d) (5 / 10) then ''small''
      else if lt (py_abs d) (8 / 10) then ''medium''
      else ''large'')"

definition alpha :: real where
  "alpha = 5 / 100"

definition test_tutorial_vs_career_hypothesis ::
  "scipy \<Rightarrow> analysis list \<Rightarrow> (conclusion \<times> comparison_results) option" where
  "test_tutorial_vs_career_hypothesis lib df =
     (let tutorial_videos = filter (\<lambda>r. category r = ''Tutorial'') df;
          career_videos = filter (\<lambda>r. category r = ''Career'') df
      in if length tutorial_videos < 2 \<or> length career_videos < 2 then None
         else
           let tutorial_views = map (\<lambda>r. real_of_int (views r)) tutorial_videos;
               career_views = map (\<lambda>r. real_of_int (views r)) career_videos;
               (t_stat, t_p) = ttest_ind lib tutorial_views career_views True;
               (u_stat, u_p) = mannwhitneyu lib tutorial_views career_views;
               pooled_std = sqrt (((std tutorial_views)\<^sup>2 + (std career_views)\<^sup>2) / 2);
               d = fdiv (mean tutorial_views - mean career_views) pooled_std;
               printed =
                 (if lt u_p alpha then
                    if mean tutorial_views > mean career_views then TutorialMore else CareerMore
                  else NoSignificantDifference)
           in Some (printed,
                \<lparr> tutorial_count = length tutorial_videos,
                  career_count = length career_videos,
                  tutorial_mean_views = mean tutorial_views,
                  career_mean_views = mean career_views,
                  tutorial_median_views = median tutorial_views,
                  career_median_views = median career_views,
                  t_statistic = t_stat,
                  t_pvalue = t_p,
                  u_statistic = u_stat,
                  u_pvalue = u_p,
                  cohens_d = d,
                  effect_size = effect_interpretation d,
                  hypothesis_supported =
                    (lt u_p alpha \<and> mean tutorial_views > mean career_views) \<rparr>))"

subsection \<open>Example tables\<close>

text \<open>
  Processed rows with a given title, view count and weekday, and stand-ins for the
  distribution functions of scipy. \<open>example_scipy\<close> gives, for every pair of samples, the
  Mann-Whitney result that scipy gives for \<open>tie_table\<close> below: U = 8 and the exact
  two-sided p-value 2 * 67 / 12870.
\<close>

definition day_ts :: "nat \<Rightarrow> timestamp" where
  "day_ts d = example_ts \<lparr> dt_dayofweek := d \<rparr>"

definition row :: "string \<Rightarrow> int \<Rightarrow> nat \<Rightarrow> analysis" where
  "row t v d = derive (day_ts d) (raw_row ''id'' t v 0 0 ''PT10M'')"

definition example_scipy :: scipy where
  "example_scipy =
     \<lparr> t_sf = (\<lambda>x df. 0),
       mannwhitneyu = (\<lambda>x y. (Fin 8, Fin (134 / 12870))),
       f_oneway_nonempty = (\<lambda>groups. (Fin 0, Fin 1)) \<rparr>"

definition keyword_table :: "analysis list" where
  "keyword_table = [row ''SQL Tutorial for Beginners'' 100 0, row ''Python Tutorial Basics'' 90 1]"

definition monday_table :: "analysis list" where
  "monday_table = [row ''SQL Tutorial for Beginners'' 100 0, row ''Career Advice'' 90 0]"

definition tie_table :: "analysis list" where
  "tie_table =
     map (\<lambda>v. row ''Excel Tutorial'' v 0) [1, 2, 3, 4, 5, 6, 7, 80]
     @ map (\<lambda>v. row ''Career Advice'' v 0) [10, 11, 12, 13, 14, 15, 16, 17]"

definition unequal_table :: "analysis list" where
  "unequal_table =
     map (\<lambda>v. row ''Excel Tutorial'' v 0) [10, 30]
     @ map (\<lambda>v. row ''Career Advice'' v 0) [1, 2, 3]"

text \<open>The two parts of what \<^verbatim>\<open>test_tutorial_vs_career_hypothesis\<close> gives.\<close>

definition printed_conclusion :: "(conclusion \<times> comparison_results) option \<Rightarrow> conclusion option"
  where
  "printed_conclusion out = map_option fst out"

definition results_of ::
  "(conclusion \<times> comparison_results) option \<Rightarrow> comparison_results option" where
  "results_of out = map_option snd out"

text \<open>The number of rows of a category, as \<^verbatim>\<open>len(df[df['category'] == c])\<close>.\<close>

definition count_category :: "string \<Rightarrow> analysis list \<Rightarrow> nat" where
  "count_category c df = length (filter (\<lambda>r. category r = c) df)"

text \<open>The view counts of a category, as \<^verbatim>\<open>df[df['category'] == c]['views'].values\<close>.\<close>

definition views_of :: "string \<Rightarrow> analysis list \<Rightarrow> real list" where
  "views_of c df = map (\<lambda>r. real_of_int (views r)) (filter (\<lambda>r. category r = c) df)"

text \<open>The statistic of Student's test and of Welch's test, written out.\<close>

definition student_t :: "real list \<Rightarrow> real list \<Rightarrow> pyfloat" where
  "student_t a b =
     fdiv (mean a - mean b)
       (sqrt (((real (length a) - 1) * variance 1 a + (real (length b) - 1) * variance 1 b)
                / (real (length a) + real (length b) - 2)
              * (1 / real (length a) + 1 / real (length b))))"

definition welch_t :: "real list \<Rightarrow> real list \<Rightarrow> pyfloat" where
  "welch_t a b =
     fdiv (mean a - mean b)
       (sqrt (variance 1 a / real (length a) + variance 1 b / real (length b)))"

section \<open>Properties\<close>

subsection \<open>The duration parser\<close>








text \<open>Searching a string that starts with a non-digit, a digit run or a component.\<close>

lemma match_digits_unit_nondigit: "\<not> is_digit c \<Longrightarrow> match_digits_unit u (c # s) = None"
  by simp

lemma re_search_nondigit: "\<not> is_digit c \<Longrightarrow> re_search u (c # s) = re_search u s"
  by simp














subsection \<open>The title classifier\<close>

lemma startswith_iff: "startswith s k \<longleftrightarrow> (\<exists>ss. s = k @ ss)"
  by (induction s k rule: startswith.induct) auto

lemma str_in_iff: "str_in k s \<longleftrightarrow> (\<exists>ps ss. s = ps @ k @ ss)"
proof (induction s)
  case Nil
  then show ?case by auto
next
  case (Cons c cs)
  show ?case
  proof
    assume "str_in k (c # cs)"
    then consider "startswith (c # cs) k" | "str_in k cs" by auto
    then show "\<exists>ps ss. c # cs = ps @ k @ ss"
    proof cases
      case 1
      then obtain ss where "c # cs = k @ ss" unfolding startswith_iff ..
      then have "c # cs = [] @ k @ ss" by simp
      then show ?thesis by blast
    next
      case 2
      with Cons obtain ps ss where "cs = ps @ k @ ss" by blast
      then have "c # cs = (c # ps) @ k @ ss" by simp
      then show ?thesis by blast
    qed
  next
    assume "\<exists>ps ss. c # cs = ps @ k @ ss"
    then obtain ps ss where eq: "c # cs = ps @ k @ ss" by blast
    show "str_in k (c # cs)"
    proof (cases ps)
      case Nil
      with eq have "startswith (c # cs) k" unfolding startswith_iff by auto
      then show ?thesis by simp
    next
      case (Cons p ps')
      with eq have "cs = ps' @ k @ ss" by simp
      with Cons.IH have "str_in k cs" by blast
      then show ?thesis by simp
    qed
  qed
qed

lemma ci_substring_code: "ci_substring k t = str_in (lower k) (lower t)"
  unfolding ci_substring_def str_in_iff ..

lemma find_first:
  "xs = pre @ x # post \<Longrightarrow> P x \<Longrightarrow> \<forall>y \<in> set pre. \<not> P y \<Longrightarrow> find P xs = Some x"
  by (induction pre arbitrary: xs) auto

lemma lower_examples:
  "lower ''Career Guide: How to Get a Job'' = ''career guide: how to get a job''"
  "lower ''Salary Negotiation'' = ''salary negotiation''"
  "lower ''Hello'' = ''hello''"
  by (simp_all add: lower_def lower_char_def)

lemma lower_keywords:
  "list_all (\<lambda>(c, ks). list_all (\<lambda>k. lower k = k) ks) categories"
  by code_simp

lemma matches_keyword:
  assumes "x \<in> set categories"
  shows "matches t x \<longleftrightarrow> (case x of (label, keywords) \<Rightarrow>
     list_ex (\<lambda>keyword. str_in keyword (lower t)) keywords)"
proof -
  obtain c ks where x: "x = (c, ks)" by (cases x)
  from assms lower_keywords have "\<forall>k \<in> set ks. lower k = k"
    unfolding x list_all_iff by fastforce
  then show ?thesis
    unfolding x matches_def list_ex_iff ci_substring_code by simp
qed

lemma categorize_first:
  assumes "categories = pre @ (c, ks) # post" "matches t (c, ks)" "\<forall>x \<in> set pre. \<not> matches t x"
  shows "categorize_video_type t = c"
proof -
  let ?P = "\<lambda>(label, keywords). list_ex (\<lambda>keyword. str_in keyword (lower t)) keywords"
  have mem: "(c, ks) \<in> set categories" "set pre \<subseteq> set categories"
    unfolding assms(1) by auto
  have "?P (c, ks)"
    using assms(2) matches_keyword [OF mem(1), of t] by simp
  moreover have "\<forall>x \<in> set pre. \<not> ?P x"
    using assms(3) mem(2) matches_keyword [of _ t] by blast
  ultimately have "find ?P categories = Some (c, ks)"
    using assms(1) find_first [of categories pre "(c, ks)" post ?P] by blast
  then show ?thesis
    unfolding categorize_video_type_def Let_def by simp
qed

lemma categorize_none:
  assumes "\<forall>x \<in> set categories. \<not> matches t x"
  shows "categorize_video_type t = ''Other''"
proof -
  let ?P = "\<lambda>(label, keywords). list_ex (\<lambda>keyword. str_in keyword (lower t)) keywords"
  have "\<forall>x \<in> set categories. \<not> ?P x"
    using assms matches_keyword [of _ t] by auto
  then have "find ?P categories = None"
    unfolding find_None_iff by blast
  then show ?thesis
    unfolding categorize_video_type_def Let_def by simp
qed

lemma category_labels:
  "map fst categories =
     [''Tutorial'', ''Career'', ''Project'', ''Tools'', ''Q&A/Livestream'', ''Advice'']"
  by (simp add: categories_def)

lemma categorize_range: "categorize_video_type t \<in> set (map fst categories) \<union> {''Other''}"
proof (cases "find (\<lambda>(label, keywords).
    list_ex (\<lambda>keyword. str_in keyword (lower t)) keywords) categories")
  case None
  then show ?thesis
    unfolding categorize_video_type_def Let_def by simp
next
  case (Some x)
  then obtain i where "i < length categories" "x = categories ! i"
    unfolding find_Some_iff by auto
  then have "x \<in> set categories"
    by simp
  with Some show ?thesis
    unfolding categorize_video_type_def Let_def by (cases x) force
qed

lemma categorize_tutorial_first:
  assumes "kt \<in> set (keywords_of ''Tutorial'')" "ci_substring kt t"
  shows "categorize_video_type t = ''Tutorial''"
proof -
  have "categories = [] @ (''Tutorial'', keywords_of ''Tutorial'') # tl categories"
    by (simp add: categories_def keywords_of_def)
  moreover have "matches t (''Tutorial'', keywords_of ''Tutorial'')"
    using assms unfolding matches_def list_ex_iff by auto
  ultimately show ?thesis
    by (rule categorize_first) simp
qed

text \<open>
  Claim C4. The classifier is a total function of the title. It returns one of the six
  category names, in the order Tutorial, Career, Project, Tools, Q&A/Livestream, Advice, or
  Other: the name of the first category in that order one of whose keywords is a
  case-insensitive substring of the title, and Other when no category has one. A title
  that holds a Tutorial keyword and a Career keyword is classified Tutorial.
\<close>

theorem categorize_video_type_first_match:
  "categorize_video_type t \<in> set (map fst categories) \<union> {''Other''}
   \<and> map fst categories =
       [''Tutorial'', ''Career'', ''Project'', ''Tools'', ''Q&A/Livestream'', ''Advice'']
   \<and> (categories = pre @ (c, ks) # post \<and> matches t (c, ks) \<and> (\<forall>x \<in> set pre. \<not> matches t x)
        \<longrightarrow> categorize_video_type t = c)
   \<and> ((\<forall>x \<in> set categories. \<not> matches t x) \<longrightarrow> categorize_video_type t = ''Other'')
   \<and> (kt \<in> set (keywords_of ''Tutorial'') \<and> ci_substring kt t
        \<and> kc \<in> set (keywords_of ''Career'') \<and> ci_substring kc t
        \<longrightarrow> categorize_video_type t = ''Tutorial'')"
  using categorize_range [of t] category_labels categorize_first [of pre c ks post t]
    categorize_none [of t] categorize_tutorial_first [of kt t]
  by blast

declare ci_substring_code [code]

theorem categorize_video_type_first_match_witness:
  "categorize_video_type ''Career Guide: How to Get a Job'' = ''Tutorial''
   \<and> categorize_video_type ''Salary Negotiation'' = ''Career''
   \<and> categorize_video_type ''Hello'' = ''Other''"
proof -
  let ?tut = "(''Tutorial'', keywords_of ''Tutorial'')"
  let ?car = "(''Career'', keywords_of ''Career'')"
  have both: "''guide'' \<in> set (keywords_of ''Tutorial'')
      \<and> ci_substring ''guide'' ''Career Guide: How to Get a Job''
      \<and> ''career'' \<in> set (keywords_of ''Career'')
      \<and> ci_substring ''career'' ''Career Guide: How to Get a Job''"
    by code_simp
  have split: "categories = [?tut] @ ?car # drop 2 categories"
    by code_simp
  have car: "matches ''Salary Negotiation'' ?car"
    by code_simp
  have not_tut: "\<forall>x \<in> set [?tut]. \<not> matches ''Salary Negotiation'' x"
    by code_simp
  have none: "\<forall>x \<in> set categories. \<not> matches ''Hello'' x"
    by code_simp
  note first =
    categorize_video_type_first_match
      [of "''Career Guide: How to Get a Job''" "[]" "[]" "[]" "[]" "''guide''" "''career''"]
  note second =
    categorize_video_type_first_match
      [of "''Salary Negotiation''" "[?tut]" "''Career''" "keywords_of ''Career''"
        "drop 2 categories" "[]" "[]"]
  note third = categorize_video_type_first_match [of "''Hello''" "[]" "[]" "[]" "[]" "[]" "[]"]
  have 1: "categorize_video_type ''Career Guide: How to Get a Job'' = ''Tutorial''"
    by (rule mp [OF first [THEN conjunct2, THEN conjunct2, THEN conjunct2, THEN conjunct2] both])
  have 2: "categorize_video_type ''Salary Negotiation'' = ''Career''"
    by (rule mp [OF second [THEN conjunct2, THEN conjunct2, THEN conjunct1]
          conjI [OF split conjI [OF car not_tut]]])
  have 3: "categorize_video_type ''Hello'' = ''Other''"
    by (rule mp [OF third [THEN conjunct2, THEN conjunct2, THEN conjunct2, THEN conjunct1] none])
  from 1 2 3 show ?thesis by (intro conjI)
qed

subsection \<open>Ratio metrics\<close>




subsection \<open>Duration buckets\<close>









subsection \<open>\<^verbatim>\<open>process_dataframe\<close> as a whole\<close>

lemma to_datetime_column_ok:
  "list_all (\<lambda>s. f s \<noteq> None) ss \<Longrightarrow> to_datetime_column f ss = Inr (map (\<lambda>s. the (f s)) ss)"
  by (induction ss) auto

lemma map2_same: "map2 g (map h xs) xs = map (\<lambda>x. g (h x) x) xs"
  by (induction xs) simp_all

lemma process_rows_ok:
  assumes "list_all (\<lambda>r. f (published r) \<noteq> None) rows"
  shows "process_rows f rows = Inr (map (\<lambda>r. derive (the (f (published r))) r) rows)"
proof -
  from assms have "list_all (\<lambda>s. f s \<noteq> None) (map published rows)"
    by (simp add: list_all_iff)
  then have "to_datetime_column f (map published rows) =
      Inr (map (\<lambda>s. the (f s)) (map published rows))"
    by (rule to_datetime_column_ok)
  then show ?thesis
    unfolding process_rows_def
    using map2_same [of derive "\<lambda>r. the (f (published r))" rows]
    by (simp add: comp_def)
qed

lemma raw_columns_derive: "raw_columns (derive ts r) = raw_columns r"
  by (simp add: raw_columns_def derive_def Let_def)

text \<open>
  Claim C8, as the code has it. On a table of raw rows whose timestamps all parse, also
  the empty table, \<^verbatim>\<open>process_dataframe\<close> gives one processed row for each row, in the same
  order, with the raw columns other than \<^verbatim>\<open>published\<close> as they were. It does so in place:
  the table it returns is the object it was given, which now holds the processed rows,
  and no other object of the store changes.
\<close>

theorem process_dataframe_in_place:
  assumes "\<sigma> df = Raw rows" "list_all (\<lambda>r. to_datetime (published r) \<noteq> None) rows"
  shows "\<exists>out. process_dataframe to_datetime \<sigma> df = Inr (\<sigma>(df := Processed out), df)
    \<and> length out = length rows
    \<and> map raw_columns out = map raw_columns rows
    \<and> out = map (\<lambda>r. derive (the (to_datetime (published r))) r) rows
    \<and> (rows = [] \<longrightarrow> out = [])"
proof -
  let ?out = "map (\<lambda>r. derive (the (to_datetime (published r))) r) rows"
  have "process_dataframe to_datetime \<sigma> df = Inr (\<sigma>(df := Processed ?out), df)"
    unfolding process_dataframe_def using assms(1) process_rows_ok [OF assms(2)] by simp
  moreover have "map raw_columns ?out = map raw_columns rows"
    by (simp add: raw_columns_derive comp_def)
  ultimately show ?thesis by auto
qed

lemma example_parse: "example_to_datetime ''2023-05-15T14:00:00Z'' = Some example_ts"
  by (simp add: example_to_datetime_def)

theorem process_dataframe_in_place_witness:
  "\<exists>out. process_dataframe example_to_datetime example_store 0 =
      Inr (example_store(0 := Processed out), 0)
    \<and> length out = 1
    \<and> map video_id out = [''v1'']"
proof -
  let ?row = "raw_row ''v1'' ''SQL Tutorial for Beginners'' 100 10 1 ''PT5M''"
  have store: "example_store 0 = Raw [?row]"
    by (simp add: example_store_def)
  have parse: "list_all (\<lambda>r. example_to_datetime (published r) \<noteq> None) [?row]"
    by (simp add: raw_row_def example_parse)
  from process_dataframe_in_place [of example_store 0 "[?row]" example_to_datetime, OF store parse]
  obtain out where out: "process_dataframe example_to_datetime example_store 0 =
      Inr (example_store(0 := Processed out), 0)"
    "length out = length [?row]" "map raw_columns out = map raw_columns [?row]"
    by blast
  from out(3) have "map video_id out = [''v1'']"
    by (cases out) (auto simp: raw_columns_def raw_row_def)
  with out(1,2) show ?thesis by auto
qed

text \<open>
  The claim as the specification states it fails: the table that was passed in is not
  left as it was. After the call the reference holds the processed rows.
\<close>

theorem process_dataframe_counterexample:
  "example_store 0 = Raw [raw_row ''v1'' ''SQL Tutorial for Beginners'' 100 10 1 ''PT5M'']
   \<and> returned (process_dataframe example_to_datetime example_store 0) = Some 0
   \<and> frame_after (process_dataframe example_to_datetime example_store 0) 0 =
       Some (Processed
         [derive example_ts (raw_row ''v1'' ''SQL Tutorial for Beginners'' 100 10 1 ''PT5M'')])
   \<and> frame_after (process_dataframe example_to_datetime example_store 0) 0 \<noteq>
       Some (example_store 0)"
proof -
  let ?row = "raw_row ''v1'' ''SQL Tutorial for Beginners'' 100 10 1 ''PT5M''"
  have store: "example_store 0 = Raw [?row]"
    by (simp add: example_store_def)
  have pub: "published ?row = ''2023-05-15T14:00:00Z''"
    by (simp add: raw_row_def)
  have "process_rows example_to_datetime [?row] = Inr [derive example_ts ?row]"
    unfolding process_rows_def by (simp add: pub example_parse)
  then have "process_dataframe example_to_datetime example_store 0 =
      Inr (example_store(0 := Processed [derive example_ts ?row]), 0)"
    unfolding process_dataframe_def store by simp
  with store show ?thesis by simp
qed

subsection \<open>Keyword frequency\<close>

lemma row_fields:
  "title (row t v d) = t"
  "views (row t v d) = v"
  "day_of_week (row t v d) = d"
  "category (row t v d) = categorize_video_type t"
  by (simp_all add: row_def derive_def raw_row_def day_ts_def Let_def)

lemma count_keywords_example:
  "count_keywords [''SQL Tutorial for Beginners'', ''Python Tutorial Basics''] =
     [(''tutorial'', 2), (''sql'', 1), (''beginners'', 1), (''python'', 1), (''basics'', 1)]"
  "count_keywords [''Python Tutorial Basics'', ''SQL Tutorial for Beginners''] =
     [(''tutorial'', 2), (''python'', 1), (''basics'', 1), (''sql'', 1), (''beginners'', 1)]"
  "count_keywords [] = []"
  by code_simp+

lemma nlargest_two:
  "nlargest 2 [a, b] = (if views b \<le> views a then [a, b] else [b, a])"
  by (simp add: nlargest_def)

lemma nlargest_zero: "nlargest 0 df = []"
  by (simp add: nlargest_def)

text \<open>
  Claim C10, as the code has it. The number of records selected is
  \<^verbatim>\<open>int(len(df) * top_percentile)\<close>. For a table of the two records titled
  SQL Tutorial for Beginners and Python Tutorial Basics, with the default stop words and
  length cutoff: when the top fraction is 1, both records are selected and tutorial is in
  the output with count 2; with the default top fraction of one-tenth, int(2 * 0.1) = 0
  records are selected and the output is empty.
\<close>

theorem keyword_frequency_two_titles:
  assumes "title a = ''SQL Tutorial for Beginners''" "title b = ''Python Tutorial Basics''"
  shows "(''tutorial'', 2) \<in> set (analyze_keyword_frequency [a, b] 1)
    \<and> analyze_keyword_frequency [a, b] default_top_percentile = []"
proof -
  have "analyze_keyword_frequency [a, b] 1 = count_keywords (map title (nlargest 2 [a, b]))"
    by (simp add: analyze_keyword_frequency_def py_trunc_def)
  then have "(''tutorial'', 2) \<in> set (analyze_keyword_frequency [a, b] 1)"
    using assms by (simp add: nlargest_two count_keywords_example)
  moreover have "py_trunc (real (length [a, b]) * default_top_percentile) = 0"
    by (simp add: py_trunc_def default_top_percentile_def)
  then have "analyze_keyword_frequency [a, b] default_top_percentile = []"
    unfolding analyze_keyword_frequency_def Let_def
    by (simp only: nlargest_zero list.map count_keywords_example)
  ultimately show ?thesis by simp
qed

theorem keyword_frequency_two_titles_witness:
  "(''tutorial'', 2) \<in> set (analyze_keyword_frequency keyword_table 1)
   \<and> analyze_keyword_frequency keyword_table default_top_percentile = []"
  unfolding keyword_table_def
  by (rule keyword_frequency_two_titles) (simp_all add: row_fields)

text \<open>
  The claim as the specification states it fails: with the default top fraction the
  output for the two records is empty, so tutorial is not in it.
\<close>

theorem keyword_frequency_counterexample:
  "title (keyword_table ! 0) = ''SQL Tutorial for Beginners''
   \<and> title (keyword_table ! 1) = ''Python Tutorial Basics''
   \<and> length keyword_table = 2
   \<and> py_trunc (real (length keyword_table) * default_top_percentile) = 0
   \<and> analyze_keyword_frequency keyword_table default_top_percentile = []
   \<and> (''tutorial'', 2) \<notin> set (analyze_keyword_frequency keyword_table default_top_percentile)"
proof -
  have n: "py_trunc (real (length keyword_table) * default_top_percentile) = 0"
    by (simp add: keyword_table_def py_trunc_def default_top_percentile_def)
  then have "analyze_keyword_frequency keyword_table default_top_percentile = []"
    unfolding analyze_keyword_frequency_def Let_def
    by (simp only: nlargest_zero list.map count_keywords_example)
  with n show ?thesis
    by (simp add: keyword_table_def row_fields)
qed

subsection \<open>The day-of-week test\<close>

lemma day_of_week_empty_group:
  assumes "i < 7" "filter (\<lambda>r. day_of_week r = i) df = []"
  shows "test_day_of_week_hypothesis lib df =
    (HypothesisRejected, \<lparr> f_statistic = NaN, p_value = NaN \<rparr>)"
proof -
  let ?groups =
    "map (\<lambda>i. map (\<lambda>r. real_of_int (views r)) (filter (\<lambda>r. day_of_week r = i) df)) [0..<7]"
  from assms have "[] \<in> set ?groups"
    by (auto simp: image_iff intro!: bexI [of _ i])
  then have "list_ex (\<lambda>g. g = []) ?groups"
    unfolding list_ex_iff by blast
  then have "f_oneway lib ?groups = (NaN, NaN)"
    by (simp add: f_oneway_def)
  then show ?thesis
    by (simp add: test_day_of_week_hypothesis_def)
qed

text \<open>
  Claim C6 against the code. The table \<open>monday_table\<close> has two rows, both published on a
  Monday, so the groups of the six other days are empty. The test does not report
  insufficient data: \<^verbatim>\<open>f_oneway\<close> gives NaN, the comparison \<^verbatim>\<open>p_value < 0.05\<close> is false, and
  the test prints HYPOTHESIS REJECTED, as for a result that is not significant.
\<close>

theorem day_of_week_empty_group_rejected:
  "test_day_of_week_hypothesis lib monday_table =
     (HypothesisRejected, \<lparr> f_statistic = NaN, p_value = NaN \<rparr>)"
proof (rule day_of_week_empty_group [of 1])
  show "filter (\<lambda>r. day_of_week r = 1) monday_table = []"
    by (simp add: monday_table_def row_fields)
qed simp

subsection \<open>Tutorial against Career\<close>

lemma categorize_examples:
  "categorize_video_type ''Excel Tutorial'' = ''Tutorial''"
  "categorize_video_type ''Career Advice'' = ''Career''"
  "categorize_video_type ''SQL Tutorial for Beginners'' = ''Tutorial''"
  by code_simp+

text \<open>
  Claim C7. The comparison returns \<^verbatim>\<open>None\<close>, which carries no p-value and no conclusion,
  exactly when the Tutorial category or the Career category has fewer than 2 rows. This
  holds whatever the statistics library would compute: no test takes part in it.
\<close>

theorem insufficient_data_returns_none:
  "(test_tutorial_vs_career_hypothesis lib df = None)
     = (count_category ''Tutorial'' df < 2 \<or> count_category ''Career'' df < 2)"
  unfolding test_tutorial_vs_career_hypothesis_def count_category_def Let_def
  by (simp split: prod.splits)

theorem insufficient_data_returns_none_witness:
  "count_category ''Tutorial'' monday_table = 1
   \<and> count_category ''Career'' monday_table = 1
   \<and> test_tutorial_vs_career_hypothesis example_scipy monday_table = None"
proof -
  have counts: "count_category ''Tutorial'' monday_table = 1"
    "count_category ''Career'' monday_table = 1"
    by (simp_all add: count_category_def monday_table_def row_fields categorize_examples)
  then have "count_category ''Tutorial'' monday_table < 2
      \<or> count_category ''Career'' monday_table < 2"
    by simp
  then have "test_tutorial_vs_career_hypothesis example_scipy monday_table = None"
    by (simp only: insufficient_data_returns_none)
  with counts show ?thesis by simp
qed

lemma ttest_ind_statistic_cases:
  "ttest_ind_statistic a b True = (student_t a b, real (length a) + real (length b) - 2)"
  "fst (ttest_ind_statistic a b False) = welch_t a b"
  by (simp_all add: ttest_ind_statistic_def equal_var_ttest_denom_def
      unequal_var_ttest_denom_def student_t_def welch_t_def Let_def)

lemma comparison_some:
  assumes "\<not> (count_category ''Tutorial'' df < 2 \<or> count_category ''Career'' df < 2)"
  shows "test_tutorial_vs_career_hypothesis lib df =
    (let tv = views_of ''Tutorial'' df;
         cv = views_of ''Career'' df;
         t = ttest_ind lib tv cv True;
         u = mannwhitneyu lib tv cv;
         d = fdiv (mean tv - mean cv) (sqrt (((std tv)\<^sup>2 + (std cv)\<^sup>2) / 2))
     in Some
       (if lt (snd u) alpha then if mean tv > mean cv then TutorialMore else CareerMore
        else NoSignificantDifference,
        \<lparr> tutorial_count = count_category ''Tutorial'' df,
          career_count = count_category ''Career'' df,
          tutorial_mean_views = mean tv,
          career_mean_views = mean cv,
          tutorial_median_views = median tv,
          career_median_views = median cv,
          t_statistic = fst t,
          t_pvalue = snd t,
          u_statistic = fst u,
          u_pvalue = snd u,
          cohens_d = d,
          effect_size = effect_interpretation d,
          hypothesis_supported = (lt (snd u) alpha \<and> mean tv > mean cv) \<rparr>))"
  using assms
  unfolding test_tutorial_vs_career_hypothesis_def count_category_def views_of_def Let_def
  by (simp split: prod.splits)

lemma comparison_decision:
  assumes "\<not> (count_category ''Tutorial'' df < 2 \<or> count_category ''Career'' df < 2)"
  shows "printed_conclusion (test_tutorial_vs_career_hypothesis lib df) =
      Some (if lt (snd (mannwhitneyu lib (views_of ''Tutorial'' df) (views_of ''Career'' df))) alpha
            then if mean (views_of ''Tutorial'' df) > mean (views_of ''Career'' df)
                 then TutorialMore else CareerMore
            else NoSignificantDifference)"
    and "map_option hypothesis_supported (results_of (test_tutorial_vs_career_hypothesis lib df)) =
      Some (lt (snd (mannwhitneyu lib (views_of ''Tutorial'' df) (views_of ''Career'' df))) alpha
            \<and> mean (views_of ''Tutorial'' df) > mean (views_of ''Career'' df))"
  unfolding comparison_some [OF assms] printed_conclusion_def results_of_def Let_def
  by simp_all

lemma comparison_ttest:
  assumes "\<not> (count_category ''Tutorial'' df < 2 \<or> count_category ''Career'' df < 2)"
  shows "map_option t_statistic (results_of (test_tutorial_vs_career_hypothesis lib df)) =
      Some (student_t (views_of ''Tutorial'' df) (views_of ''Career'' df))"
    and "map_option t_pvalue (results_of (test_tutorial_vs_career_hypothesis lib df)) =
      Some (two_sided_p lib (student_t (views_of ''Tutorial'' df) (views_of ''Career'' df))
        (real (count_category ''Tutorial'' df) + real (count_category ''Career'' df) - 2))"
  unfolding comparison_some [OF assms] results_of_def Let_def
  by (simp_all add: ttest_ind_def ttest_ind_statistic_cases views_of_def count_category_def)

lemma tie_table_views:
  "views_of ''Tutorial'' tie_table = [1, 2, 3, 4, 5, 6, 7, 80]"
  "views_of ''Career'' tie_table = [10, 11, 12, 13, 14, 15, 16, 17]"
  "count_category ''Tutorial'' tie_table = 8"
  "count_category ''Career'' tie_table = 8"
  by (simp_all add: views_of_def count_category_def tie_table_def row_fields categorize_examples)

lemma unequal_table_views:
  "views_of ''Tutorial'' unequal_table = [10, 30]"
  "views_of ''Career'' unequal_table = [1, 2, 3]"
  "count_category ''Tutorial'' unequal_table = 2"
  "count_category ''Career'' unequal_table = 3"
  by (simp_all add: views_of_def count_category_def unequal_table_def row_fields
      categorize_examples)

lemma example_mannwhitneyu: "mannwhitneyu example_scipy x y = (Fin 8, Fin (134 / 12870))"
  by (simp add: example_scipy_def)

text \<open>
  Claim C2 against the code. In \<open>tie_table\<close> the Tutorial views are 1, 2, 3, 4, 5, 6, 7, 80
  and the Career views are 10, ..., 17: both means are 13.5, and the Mann-Whitney p-value
  is below 0.05. The Tutorial mean is not lower, so by the claim the result is "no
  significant difference"; the code takes the \<^verbatim>\<open>else\<close> branch of line 579 and prints that
  Career videos get significantly more views.
\<close>

theorem equal_means_reported_as_career_more:
  "mean (views_of ''Tutorial'' tie_table) = 27 / 2
   \<and> mean (views_of ''Career'' tie_table) = 27 / 2
   \<and> map_option u_pvalue (results_of (test_tutorial_vs_career_hypothesis example_scipy tie_table))
       = Some (Fin (134 / 12870))
   \<and> printed_conclusion (test_tutorial_vs_career_hypothesis example_scipy tie_table)
       = Some CareerMore
   \<and> map_option hypothesis_supported
       (results_of (test_tutorial_vs_career_hypothesis example_scipy tie_table)) = Some False"
proof -
  have enough: "\<not> (count_category ''Tutorial'' tie_table < 2 \<or> count_category ''Career'' tie_table < 2)"
    by (simp add: tie_table_views)
  have means: "mean (views_of ''Tutorial'' tie_table) = 27 / 2"
    "mean (views_of ''Career'' tie_table) = 27 / 2"
    by (simp_all add: tie_table_views mean_def)
  have p: "lt (snd (mannwhitneyu example_scipy (views_of ''Tutorial'' tie_table)
      (views_of ''Career'' tie_table))) alpha"
    by (simp add: example_mannwhitneyu alpha_def)
  have "map_option u_pvalue (results_of (test_tutorial_vs_career_hypothesis example_scipy tie_table))
      = Some (Fin (134 / 12870))"
    unfolding comparison_some [OF enough] results_of_def Let_def
    by (simp add: example_mannwhitneyu)
  with comparison_decision [OF enough, of example_scipy] means p show ?thesis
    by simp
qed

text \<open>
  Claim C9, as the code has it. \<^verbatim>\<open>ttest_ind\<close> is called without \<^verbatim>\<open>equal_var\<close>, so with
  scipy's default \<^verbatim>\<open>equal_var=True\<close>: whenever the comparison runs, its parametric test is
  Student's t-test, which assumes equal variances. The statistic is the difference of the
  means over the pooled standard error and the p-value is taken with \<open>n1 + n2 - 2\<close>
  degrees of freedom.
\<close>

theorem parametric_test_is_student:
  assumes "2 \<le> count_category ''Tutorial'' df" "2 \<le> count_category ''Career'' df"
  shows "map_option t_statistic (results_of (test_tutorial_vs_career_hypothesis lib df)) =
      Some (student_t (views_of ''Tutorial'' df) (views_of ''Career'' df))
    \<and> map_option t_pvalue (results_of (test_tutorial_vs_career_hypothesis lib df)) =
      Some (two_sided_p lib (student_t (views_of ''Tutorial'' df) (views_of ''Career'' df))
        (real (count_category ''Tutorial'' df) + real (count_category ''Career'' df) - 2))
    \<and> student_t (views_of ''Tutorial'' df) (views_of ''Career'' df) =
        fst (ttest_ind_statistic (views_of ''Tutorial'' df) (views_of ''Career'' df) True)"
proof -
  from assms
  have enough: "\<not> (count_category ''Tutorial'' df < 2 \<or> count_category ''Career'' df < 2)"
    by simp
  from comparison_ttest [OF enough, of lib] show ?thesis
    by (simp add: ttest_ind_statistic_cases)
qed

lemma unequal_statistics:
  "student_t [10, 30] [1, 2, 3] = Fin (18 / sqrt (505 / 9))"
  "welch_t [10, 30] [1, 2, 3] = Fin (18 / sqrt (301 / 3))"
  by (simp_all add: student_t_def welch_t_def fdiv_def mean_def variance_def power2_eq_square)

theorem parametric_test_is_student_witness:
  "map_option t_statistic (results_of (test_tutorial_vs_career_hypothesis example_scipy unequal_table))
     = Some (Fin (18 / sqrt (505 / 9)))"
proof -
  have enough: "2 \<le> count_category ''Tutorial'' unequal_table"
    "2 \<le> count_category ''Career'' unequal_table"
    by (simp_all add: unequal_table_views)
  from parametric_test_is_student [OF enough, of example_scipy]
  have "map_option t_statistic
      (results_of (test_tutorial_vs_career_hypothesis example_scipy unequal_table)) =
      Some (student_t (views_of ''Tutorial'' unequal_table) (views_of ''Career'' unequal_table))"
    by (rule conjunct1)
  then show ?thesis
    by (simp only: unequal_table_views unequal_statistics)
qed

text \<open>
  The claim as the specification states it fails: for the Tutorial views 10, 30 and the
  Career views 1, 2, 3 the statistic that the comparison reports is Student's, and
  Welch's statistic for the same samples is another number.
\<close>

theorem parametric_test_counterexample:
  "map_option t_statistic (results_of (test_tutorial_vs_career_hypothesis example_scipy unequal_table))
     = Some (student_t [10, 30] [1, 2, 3])
   \<and> fst (ttest_ind_statistic [10, 30] [1, 2, 3] False) = welch_t [10, 30] [1, 2, 3]
   \<and> student_t [10, 30] [1, 2, 3] \<noteq> welch_t [10, 30] [1, 2, 3]"
proof -
  have enough: "\<not> (count_category ''Tutorial'' unequal_table < 2
      \<or> count_category ''Career'' unequal_table < 2)"
    by (simp add: unequal_table_views)
  have "sqrt (505 / 9) \<noteq> sqrt (301 / 3)"
    by simp
  then have "student_t [10, 30] [1, 2, 3] \<noteq> welch_t [10, 30] [1, 2, 3]"
    unfolding unequal_statistics by (simp add: field_simps)
  with comparison_ttest(1) [OF enough, of example_scipy] show ?thesis
    by (simp add: unequal_table_views ttest_ind_statistic_cases)
qed

end
